theory Spec2Isabelle
  imports Complex_Main
begin

section \<open>CosmoFlow: distances and mock redshift catalogues\<close>

text \<open>
  A shallow embedding of \<^verbatim>\<open>cosmology.py\<close>, \<^verbatim>\<open>tracers.py\<close> and \<^verbatim>\<open>survey.py\<close>.

  Conventions of the embedding:
  \<^item> a Python exception is the \<open>Inl\<close> side of a sum;
  \<^item> a loop that need not end is a \<^theory_text>\<open>partial_function\<close> in the option monad,
    so that \<open>None\<close> stands for a call that never returns;
  \<^item> a float64 is an exact real together with the three special values of IEEE
    arithmetic (\<open>+inf\<close>, \<open>-inf\<close>, \<open>nan\<close>); rounding, overflow and signed zeros are
    not modelled;
  \<^item> NumPy's process-wide random generator is an explicit stream of draws from the
    unit interval, threaded through every function that draws from it;
  \<^item> SciPy's \<^verbatim>\<open>quad\<close> and \<^verbatim>\<open>interp1d\<close> are parameters: their results are whatever
    the library returns. SciPy's \<^verbatim>\<open>erf\<close> is the error function, given by its
    Maclaurin series.
\<close>

subsection \<open>Exceptions\<close>

datatype error =
    AttributeError string
  | TypeError
  | ValueError

subsection \<open>float64 values\<close>

datatype npfloat = Fin real | PInf | NInf | NaN

fun np_sgn :: "npfloat \<Rightarrow> real" where
  "np_sgn (Fin a) = sgn a"
| "np_sgn PInf = 1"
| "np_sgn NInf = - 1"
| "np_sgn NaN = 0"

definition np_inf_of_sign :: "real \<Rightarrow> npfloat" where
  "np_inf_of_sign s = (if 0 < s then PInf else if s < 0 then NInf else NaN)"

fun np_neg :: "npfloat \<Rightarrow> npfloat" where
  "np_neg (Fin a) = Fin (- a)"
| "np_neg PInf = NInf"
| "np_neg NInf = PInf"
| "np_neg NaN = NaN"

fun np_mul :: "npfloat \<Rightarrow> npfloat \<Rightarrow> npfloat" where
  "np_mul NaN y = NaN"
| "np_mul x NaN = NaN"
| "np_mul (Fin a) (Fin b) = Fin (a * b)"
| "np_mul x y = np_inf_of_sign (np_sgn x * np_sgn y)"

fun np_sub :: "npfloat \<Rightarrow> npfloat \<Rightarrow> npfloat" where
  "np_sub NaN y = NaN"
| "np_sub x NaN = NaN"
| "np_sub (Fin a) (Fin b) = Fin (a - b)"
| "np_sub PInf PInf = NaN"
| "np_sub NInf NInf = NaN"
| "np_sub PInf y = PInf"
| "np_sub NInf y = NInf"
| "np_sub x PInf = NInf"
| "np_sub x NInf = PInf"

fun np_div :: "npfloat \<Rightarrow> npfloat \<Rightarrow> npfloat" where
  "np_div NaN y = NaN"
| "np_div x NaN = NaN"
| "np_div (Fin a) (Fin b) = (if b = 0 then np_inf_of_sign a else Fin (a / b))"
| "np_div (Fin a) y = Fin 0"
| "np_div x (Fin b) = np_inf_of_sign (np_sgn x * (if b < 0 then - 1 else 1))"
| "np_div x y = NaN"

fun np_less :: "npfloat \<Rightarrow> npfloat \<Rightarrow> bool" where
  "np_less NaN y = False"
| "np_less x NaN = False"
| "np_less (Fin a) (Fin b) = (a < b)"
| "np_less NInf y = (y \<noteq> NInf)"
| "np_less x PInf = (x \<noteq> PInf)"
| "np_less x y = False"

fun np_le :: "npfloat \<Rightarrow> npfloat \<Rightarrow> bool" where
  "np_le NaN y = False"
| "np_le x NaN = False"
| "np_le x y = (x = y \<or> np_less x y)"

definition np_sqrt :: "real \<Rightarrow> npfloat" where
  "np_sqrt x = (if 0 \<le> x then Fin (sqrt x) else NaN)"

fun np_exp :: "npfloat \<Rightarrow> npfloat" where
  "np_exp (Fin a) = Fin (exp a)"
| "np_exp PInf = PInf"
| "np_exp NInf = Fin 0"
| "np_exp NaN = NaN"

fun np_log10 :: "npfloat \<Rightarrow> npfloat" where
  "np_log10 (Fin a) = (if 0 < a then Fin (log 10 a) else if a = 0 then NInf else NaN)"
| "np_log10 PInf = PInf"
| "np_log10 NInf = NaN"
| "np_log10 NaN = NaN"

text \<open>
  \<^verbatim>\<open>x ** y\<close> on floats: a negative base with a fractional exponent is \<open>nan\<close>, and
  anything to the power zero is one.
\<close>

definition np_power :: "real \<Rightarrow> real \<Rightarrow> npfloat" where
  "np_power x y =
     (if y = 0 then Fin 1
      else if 0 < x then Fin (x powr y)
      else if x = 0 then (if 0 < y then Fin 0 else PInf)
      else if y = of_int \<lfloor>y\<rfloor> then Fin (x powi \<lfloor>y\<rfloor>)
      else NaN)"

subsection \<open>cosmology.py\<close>

text \<open>
  An instance of \<^verbatim>\<open>Cosmology\<close>. The attribute \<^verbatim>\<open>comoving_distance_lookup\<close> exists only
  once \<^verbatim>\<open>_builds_lookups\<close> has run, hence the option.
\<close>

record cosmology =
  h :: real
  H0 :: real
  Omega_m :: real
  Omega_lambda :: real
  c :: real
  comoving_distance_lookup :: "(real \<Rightarrow> npfloat) option"

type_synonym quad_fn = "(real \<Rightarrow> npfloat) \<Rightarrow> real \<Rightarrow> real \<Rightarrow> npfloat \<times> npfloat"
type_synonym interp1d_fn = "real list \<Rightarrow> npfloat list \<Rightarrow> real \<Rightarrow> npfloat"

definition E :: "cosmology \<Rightarrow> real \<Rightarrow> npfloat" where
  "E self z = np_sqrt (Omega_m self * (1 + z) ^ 3 + Omega_lambda self)"

definition linspace :: "real \<Rightarrow> real \<Rightarrow> nat \<Rightarrow> real list" where
  "linspace start stop num =
     map (\<lambda>i. start + real i * ((stop - start) / real (num - 1))) [0..<num]"

definition builds_lookups :: "quad_fn \<Rightarrow> interp1d_fn \<Rightarrow> cosmology \<Rightarrow> cosmology" where
  "builds_lookups quad interp1d self =
     (let z_vals = linspace 0 5 1000;
          d_c_vals = map (\<lambda>z. fst (quad (\<lambda>z_prime. np_div (Fin (c self / H0 self)) (E self z_prime)) 0 z)) z_vals
      in self\<lparr>comoving_distance_lookup := Some (interp1d z_vals d_c_vals)\<rparr>)"

text \<open>
  The methods the class statement of \<^verbatim>\<open>Cosmology\<close> binds, under the names it binds
  them to. \<^verbatim>\<open>self.name\<close> is looked up here when the instance has no attribute of
  that name.
\<close>

datatype cosmology_method =
    M_init | M_E | M_builds_lookups
  | M_comoving_distance | M_luminosity_distance | M_distance_modulus

definition Cosmology_class :: "string \<rightharpoonup> cosmology_method" where
  "Cosmology_class = map_of
     [(''__init__'', M_init),
      (''E'', M_E),
      (''_builds_lookups'', M_builds_lookups),
      (''comoving_distance'', M_comoving_distance),
      (''luminosity_distance'', M_luminosity_distance),
      (''distance_modulus'', M_distance_modulus)]"

text \<open>Calling a bound method with no argument; all but one need more.\<close>

fun call_no_args :: "quad_fn \<Rightarrow> interp1d_fn \<Rightarrow> cosmology_method \<Rightarrow> cosmology \<Rightarrow> error + cosmology" where
  "call_no_args quad interp1d M_builds_lookups self = Inr (builds_lookups quad interp1d self)"
| "call_no_args quad interp1d m self = Inl TypeError"

text \<open>
  \<^verbatim>\<open>Cosmology.__init__\<close>: the five assignments, then the call \<^verbatim>\<open>self._build_lookups()\<close>.
  \<open>init_attributes\<close> is the instance just before that call.
\<close>

definition init_attributes :: cosmology where
  "init_attributes =
     \<lparr>h = 0.6737, H0 = 100 * 0.6737, Omega_m = 0.3147, Omega_lambda = 0.6853,
      c = 299792.458, comoving_distance_lookup = None\<rparr>"

definition Cosmology_init :: "quad_fn \<Rightarrow> interp1d_fn \<Rightarrow> error + cosmology" where
  "Cosmology_init quad interp1d =
     (let self = init_attributes
      in case Cosmology_class ''_build_lookups'' of
           None \<Rightarrow> Inl (AttributeError ''_build_lookups'')
         | Some m \<Rightarrow> call_no_args quad interp1d m self)"

definition comoving_distance :: "cosmology \<Rightarrow> real \<Rightarrow> error + npfloat" where
  "comoving_distance self z =
     (case comoving_distance_lookup self of
        None \<Rightarrow> Inl (AttributeError ''comoving_distance_lookup'')
      | Some lookup \<Rightarrow> Inr (lookup z))"

definition luminosity_distance :: "cosmology \<Rightarrow> real \<Rightarrow> error + npfloat" where
  "luminosity_distance self z =
     (case comoving_distance self z of
        Inl e \<Rightarrow> Inl e
      | Inr d_C \<Rightarrow> Inr (np_mul (Fin (1 + z)) d_C))"

definition distance_modulus :: "cosmology \<Rightarrow> real \<Rightarrow> error + npfloat" where
  "distance_modulus self z =
     (case luminosity_distance self z of
        Inl e \<Rightarrow> Inl e
      | Inr d_L \<Rightarrow> Inr (np_sub (np_mul (Fin 5) (np_log10 (np_mul d_L (Fin 1000000)))) (Fin 5)))"

text \<open>
  An instance to evaluate the methods on: the attributes of \<open>init_attributes\<close> and,
  as lookup, the line \<open>z \<mapsto> 3000 z\<close> (in Mpc).
\<close>

definition linear_lookup_instance :: cosmology where
  "linear_lookup_instance =
     init_attributes\<lparr>comoving_distance_lookup := Some (\<lambda>z. Fin (3000 * z))\<rparr>"

subsection \<open>The error function\<close>

text \<open>
  \<^verbatim>\<open>scipy.special.erf\<close>: \<open>erf x = 2 / sqrt pi * (\<Sum>m. (- 1) ^ m * x ^ (2 * m + 1) / (m! * (2 * m + 1)))\<close>,
  written as a power series in \<open>x\<close> whose even coefficients vanish.
\<close>

definition erf_coeffs :: "nat \<Rightarrow> real" where
  "erf_coeffs n =
     (if odd n then 2 / sqrt pi * (- 1) ^ (n div 2) / (fact (n div 2) * real n) else 0)"

definition erf :: "real \<Rightarrow> real" where
  "erf x = (\<Sum>n. erf_coeffs n * x ^ n)"

subsection \<open>tracers.py\<close>

text \<open>
  The four subclasses of \<^verbatim>\<open>Tracer\<close>. None takes a constructor argument, so an
  instance is determined by its class; the attributes \<^verbatim>\<open>__init__\<close> sets are the
  constants below.
\<close>

datatype tracer = LRG | ELG | QSO | BGS

definition LRG_z_min :: real where "LRG_z_min = 0.4"
definition LRG_z_max :: real where "LRG_z_max = 1.0"
definition LRG_sigma :: real where "LRG_sigma = 0.1"
definition LRG_norm :: real where "LRG_norm = 1.0 / (LRG_z_max - LRG_z_min)"

definition ELG_alpha :: real where "ELG_alpha = 2.0"
definition ELG_beta :: real where "ELG_beta = 1.5"
definition ELG_z0 :: real where "ELG_z0 = 0.8"

definition QSO_z_star :: real where "QSO_z_star = 2.0"

definition BGS_alpha :: real where "BGS_alpha = 2.0"
definition BGS_beta :: real where "BGS_beta = 1.5"
definition BGS_z0 :: real where "BGS_z0 = 0.2"

text \<open>
  \<^verbatim>\<open>self.max_prob_estimate\<close>: only \<^verbatim>\<open>ELG.__init__\<close> and \<^verbatim>\<open>BGS.__init__\<close> set it, and
  the base class has no such attribute.
\<close>

fun max_prob_estimate :: "tracer \<Rightarrow> real option" where
  "max_prob_estimate LRG = None"
| "max_prob_estimate ELG = Some 1.0"
| "max_prob_estimate QSO = None"
| "max_prob_estimate BGS = Some 1.0"

text \<open>
  In \<^verbatim>\<open>LRG.n_of_z\<close> the argument of \<^verbatim>\<open>erf\<close> is \<^verbatim>\<open>(z - self.z_min) / np.sqrt(2) * self.sigma\<close>:
  division and multiplication associate to the left.
\<close>

fun n_of_z :: "tracer \<Rightarrow> real \<Rightarrow> npfloat" where
  "n_of_z LRG z =
     Fin (0.5 * (erf ((z - LRG_z_min) / sqrt 2 * LRG_sigma)
               - erf ((z - LRG_z_max) / sqrt 2 * LRG_sigma)))"
| "n_of_z ELG z =
     np_mul (np_power z ELG_alpha) (np_exp (np_neg (np_power (z / ELG_z0) ELG_beta)))"
| "n_of_z QSO z = Fin (z ^ 2 * exp (- z / QSO_z_star))"
| "n_of_z BGS z =
     np_mul (np_power z BGS_alpha) (np_exp (np_neg (np_power (z / BGS_z0) BGS_beta)))"

text \<open>
  The density the specification states for LRG, in its words: the half-difference of
  two error functions centred at \<open>z_min\<close> and \<open>z_max\<close> with width \<open>sigma\<close>,
  \<^verbatim>\<open>0.5 * (erf((z - z_min) / (sqrt(2) * sigma)) - erf((z - z_max) / (sqrt(2) * sigma)))\<close>.
  It is compared with \<open>n_of_z LRG\<close> below.
\<close>

definition LRG_n_of_z_spec :: "real \<Rightarrow> real" where
  "LRG_n_of_z_spec z =
     0.5 * (erf ((z - LRG_z_min) / (sqrt 2 * LRG_sigma))
          - erf ((z - LRG_z_max) / (sqrt 2 * LRG_sigma)))"

subsubsection \<open>The random generator\<close>

text \<open>
  The state of \<^verbatim>\<open>np.random\<close> is the stream of the draws it will make, each in the
  unit interval \<open>[0, 1)\<close>. \<^verbatim>\<open>uniform(low, high, size)\<close> scales the next \<open>size\<close> draws
  to \<open>[low, high)\<close>; \<^verbatim>\<open>randint(low, high)\<close> turns the next draw into an integer of
  \<open>[low, high)\<close> and raises when that range is empty.
\<close>

type_synonym rng = "nat \<Rightarrow> real"

definition valid_rng :: "rng \<Rightarrow> bool" where
  "valid_rng g = (\<forall>i. 0 \<le> g i \<and> g i < 1)"

text \<open>The generator after \<open>k\<close> draws have been consumed.\<close>

definition advance :: "nat \<Rightarrow> rng \<Rightarrow> rng" where
  "advance k g = (\<lambda>i. g (i + k))"

definition uniform :: "real \<Rightarrow> real \<Rightarrow> nat \<Rightarrow> rng \<Rightarrow> real list \<times> rng" where
  "uniform low high sz g = (map (\<lambda>i. low + (high - low) * g i) [0..<sz], advance sz g)"

definition randint :: "int \<Rightarrow> int \<Rightarrow> rng \<Rightarrow> error + int \<times> rng" where
  "randint low high g =
     (if high \<le> low then Inl ValueError
      else Inr (low + \<lfloor>g 0 * of_int (high - low)\<rfloor>, advance 1 g))"

text \<open>A stream that starts with the given draws and goes on with zeros.\<close>

definition draws :: "real list \<Rightarrow> rng" where
  "draws us = (\<lambda>i. if i < length us then us ! i else 0)"

subsubsection \<open>Rejection sampling\<close>

text \<open>\<^verbatim>\<open>z_proposal[accepted]\<close>: the entries of an array at which a boolean mask holds.\<close>

definition mask_select :: "'a list \<Rightarrow> bool list \<Rightarrow> 'a list" where
  "mask_select xs flags = map fst (filter snd (zip xs flags))"

text \<open>\<^verbatim>\<open>xs[:n]\<close>: a negative \<open>n\<close> counts from the end.\<close>

definition slice_to :: "'a list \<Rightarrow> int \<Rightarrow> 'a list" where
  "slice_to xs n = (if 0 \<le> n then take (nat n) xs else take (nat (int (length xs) + n)) xs)"

text \<open>The sampling domain \<open>[z_min, z_max] = [0, 5]\<close> of \<^verbatim>\<open>sample_redshifts\<close>.\<close>

definition in_domain :: "real list \<Rightarrow> bool" where
  "in_domain zs = (\<forall>z\<in>set zs. 0 \<le> z \<and> z \<le> 5)"

text \<open>
  The \<^verbatim>\<open>while\<close> loop of \<^verbatim>\<open>Tracer.sample_redshifts\<close>, from the state
  \<open>(samples, g)\<close>. The batch size is positive whenever the body runs.
\<close>

partial_function (option) sample_loop ::
  "tracer \<Rightarrow> real \<Rightarrow> int \<Rightarrow> real list \<Rightarrow> rng \<Rightarrow> (real list \<times> rng) option" where
  "sample_loop self max_prob n samples g =
     (if int (length samples) < n then
        (let batch_size = (n - int (length samples)) * 3;
             (z_proposal, g1) = uniform 0 5 (nat batch_size) g;
             (prob_proposal, g2) = uniform 0 max_prob (nat batch_size) g1;
             accepted = map2 (\<lambda>p z. np_less (Fin p) (n_of_z self z)) prob_proposal z_proposal
         in sample_loop self max_prob n (samples @ mask_select z_proposal accepted) g2)
      else Some (samples, g))"

definition sample_redshifts :: "tracer \<Rightarrow> int \<Rightarrow> rng \<Rightarrow> (error + real list \<times> rng) option" where
  "sample_redshifts self n g =
     (case max_prob_estimate self of
        None \<Rightarrow> Some (Inl (AttributeError ''max_prob_estimate''))
      | Some max_prob \<Rightarrow>
          (case sample_loop self max_prob n [] g of
             None \<Rightarrow> None
           | Some (samples, g') \<Rightarrow> Some (Inr (slice_to samples n, g'))))"

subsection \<open>survey.py\<close>

text \<open>
  One guarded step of \<^verbatim>\<open>generate_redshifts\<close>:
  \<^verbatim>\<open>if k > 0: redshifts.extend(tracer.sample_redshifts(k))\<close>.
\<close>

definition extend_sampled ::
  "tracer \<Rightarrow> int \<Rightarrow> real list \<times> rng \<Rightarrow> (error + real list \<times> rng) option" where
  "extend_sampled self k st =
     (case st of (redshifts, g) \<Rightarrow>
        if 0 < k then
          (case sample_redshifts self k g of
             None \<Rightarrow> None
           | Some (Inl e) \<Rightarrow> Some (Inl e)
           | Some (Inr (zs, g')) \<Rightarrow> Some (Inr (redshifts @ zs, g')))
        else Some (Inr (redshifts, g)))"

definition and_then ::
  "(error + 'a) option \<Rightarrow> ('a \<Rightarrow> (error + 'b) option) \<Rightarrow> (error + 'b) option" where
  "and_then r f = (case r of None \<Rightarrow> None | Some (Inl e) \<Rightarrow> Some (Inl e) | Some (Inr x) \<Rightarrow> f x)"

definition generate_redshifts :: "int \<Rightarrow> rng \<Rightarrow> (error + real list \<times> rng) option" where
  "generate_redshifts n g =
     and_then (Some (randint 0 (n + 1) g)) (\<lambda>(edge_1, g1).
     and_then (Some (randint 0 (n + 1) g1)) (\<lambda>(edge_2, g2).
     and_then (Some (randint 0 (n + 1) g2)) (\<lambda>(edge_3, g3).
       let n_lrg = edge_1;
           n_elg = edge_2 - edge_1;
           n_qso = edge_3 - edge_2;
           n_bgs = n - edge_3
       in and_then (extend_sampled LRG n_lrg ([], g3)) (\<lambda>st.
          and_then (extend_sampled ELG n_elg st) (\<lambda>st.
          and_then (extend_sampled QSO n_qso st) (\<lambda>st.
          extend_sampled BGS n_bgs st))))))"

text \<open>
  A run of the generator for \<^verbatim>\<open>generate_redshifts(1)\<close>: the three edges come out as
  \<open>0\<close>, \<open>1\<close>, \<open>0\<close>; then, for ELG and again for BGS, three proposals \<open>z = 1\<close> with
  heights \<open>0\<close>.
\<close>

definition unsorted_edges_rng :: rng where
  "unsorted_edges_rng =
     draws [0, 1/2, 0, 1/5, 1/5, 1/5, 0, 0, 0, 1/5, 1/5, 1/5, 0, 0, 0]"

section \<open>Properties\<close>

subsection \<open>The error function is strictly increasing\<close>

text \<open>
  The derivative of the series is \<open>2 / sqrt pi * exp (- x\<^sup>2)\<close>, which is positive
  everywhere.
\<close>

lemma exp_neg_square_sums:
  "(\<lambda>m. 2 / sqrt pi * ((- 1) ^ m * x ^ (2 * m) / fact m)) sums (2 / sqrt pi * exp (- (x\<^sup>2)))" for x :: real
proof -
  have "(\<lambda>m. (- (x\<^sup>2)) ^ m /\<^sub>R fact m) sums exp (- (x\<^sup>2))"
    by (rule exp_converges)
  moreover have "(- (x\<^sup>2)) ^ m /\<^sub>R fact m = (- 1) ^ m * x ^ (2 * m) / fact m" for m
  proof -
    have "(x\<^sup>2) ^ m = x ^ (2 * m)" by (simp add: power_mult)
    then show ?thesis
      by (simp add: power_minus [of "x\<^sup>2"] divide_inverse mult.commute)
  qed
  ultimately have "(\<lambda>m. (- 1) ^ m * x ^ (2 * m) / fact m) sums exp (- (x\<^sup>2))"
    by simp
  then show ?thesis by (rule sums_mult)
qed

lemma diffs_erf_coeffs:
  "diffs erf_coeffs n = (if even n then 2 / sqrt pi * ((- 1) ^ (n div 2) / fact (n div 2)) else 0)"
  by (simp add: diffs_def erf_coeffs_def)

lemma diffs_erf_sums:
  "(\<lambda>n. diffs erf_coeffs n * x ^ n) sums (2 / sqrt pi * exp (- (x\<^sup>2)))"
proof -
  let ?f = "\<lambda>m. 2 / sqrt pi * ((- 1) ^ m * x ^ (2 * m) / fact m)"
  have "(\<lambda>n. if even n then ?f (n div 2) else (\<lambda>_. 0) ((n - 1) div 2)) sums (0 + 2 / sqrt pi * exp (- (x\<^sup>2)))"
    by (rule sums_if [OF sums_zero exp_neg_square_sums])
  moreover have "(if even n then ?f (n div 2) else 0) = diffs erf_coeffs n * x ^ n" for n
    by (auto simp add: diffs_erf_coeffs elim!: evenE)
  ultimately show ?thesis by simp
qed

lemma erf_series_summable: "summable (\<lambda>n. erf_coeffs n * x ^ n)"
proof -
  have d: "summable (\<lambda>n. diffs erf_coeffs n * y ^ n)" for y :: real
    using diffs_erf_sums [of y] by (rule sums_summable)
  have "summable (\<lambda>n. norm (diffs erf_coeffs n * x ^ n))"
    by (rule powser_insidea [OF d [of "\<bar>x\<bar> + 1"]]) simp
  then have "summable (\<lambda>n. \<bar>x\<bar> * norm (diffs erf_coeffs n * x ^ n))"
    by (rule summable_mult)
  then have "summable (\<lambda>n. norm (erf_coeffs (Suc n) * x ^ Suc n))"
  proof (rule summable_comparison_test' [where N = 0])
    fix n :: nat
    have "norm (erf_coeffs (Suc n) * x ^ Suc n) * real (Suc n) = \<bar>x\<bar> * norm (diffs erf_coeffs n * x ^ n)"
      by (simp add: diffs_def abs_mult)
    moreover have "norm (erf_coeffs (Suc n) * x ^ Suc n) \<le> norm (erf_coeffs (Suc n) * x ^ Suc n) * real (Suc n)"
    proof -
      have "norm (erf_coeffs (Suc n) * x ^ Suc n) * 1 \<le> norm (erf_coeffs (Suc n) * x ^ Suc n) * real (Suc n)"
        by (rule mult_left_mono) simp_all
      then show ?thesis by simp
    qed
    ultimately show "norm (norm (erf_coeffs (Suc n) * x ^ Suc n)) \<le> \<bar>x\<bar> * norm (diffs erf_coeffs n * x ^ n)"
      by simp
  qed
  then have "summable (\<lambda>n. erf_coeffs (Suc n) * x ^ Suc n)"
    by (rule summable_norm_cancel)
  then show ?thesis
    unfolding summable_Suc_iff [of "\<lambda>n. erf_coeffs n * x ^ n"] .
qed

lemma DERIV_erf: "DERIV erf x :> 2 / sqrt pi * exp (- (x\<^sup>2))"
proof -
  have "((\<lambda>x. \<Sum>n. erf_coeffs n * x ^ n) has_field_derivative (\<Sum>n. diffs erf_coeffs n * x ^ n)) (at x)"
    by (rule termdiffs_strong_converges_everywhere) (rule erf_series_summable)
  moreover have "(\<Sum>n. diffs erf_coeffs n * x ^ n) = 2 / sqrt pi * exp (- (x\<^sup>2))"
    using diffs_erf_sums by (rule sums_unique [symmetric])
  moreover have "erf = (\<lambda>x. \<Sum>n. erf_coeffs n * x ^ n)"
    by (rule ext) (simp add: erf_def)
  ultimately show ?thesis by simp
qed

lemma erf_strict_mono:
  assumes "a < b"
  shows "erf a < erf b"
proof -
  have "\<exists>y. DERIV erf x :> y \<and> 0 < y" for x :: real
  proof (intro exI conjI)
    show "DERIV erf x :> 2 / sqrt pi * exp (- (x\<^sup>2))" by (rule DERIV_erf)
    show "0 < 2 / sqrt pi * exp (- (x\<^sup>2))" by (simp add: zero_less_mult_iff)
  qed
  with assms show ?thesis
    by (intro DERIV_pos_imp_increasing [of a b erf]) simp_all
qed

lemma erf_mono: "a \<le> b \<Longrightarrow> erf a \<le> erf b"
  using erf_strict_mono [of a b] by (cases "a = b") simp_all

subsection \<open>The densities \<open>n_of_z\<close>\<close>

lemma square_le_exp:
  fixes x :: real
  assumes "0 \<le> x"
  shows "x\<^sup>2 \<le> exp x"
proof -
  have "x \<le> 1 + x / 2 + (x / 2)\<^sup>2 / 2"
  proof -
    have "0 \<le> (x / 2 - 1)\<^sup>2" by simp
    then show ?thesis by (simp add: power2_eq_square algebra_simps)
  qed
  also have "\<dots> \<le> exp (x / 2)"
    using assms by (intro exp_lower_Taylor_quadratic) simp
  finally have "x \<le> exp (x / 2)" .
  with assms have "x\<^sup>2 \<le> (exp (x / 2))\<^sup>2"
    by (intro power_mono) simp_all
  also have "(exp (x / 2))\<^sup>2 = exp x"
    by (simp add: power2_eq_square flip: exp_add)
  finally show ?thesis .
qed

text \<open>
  On \<open>z \<ge> 0\<close> the density of ELG and of BGS is the finite number
  \<open>z\<^sup>2 * exp (- (z / z0) powr 1.5)\<close>, and it never exceeds one when \<open>z0 \<le> 1\<close>.
\<close>

lemma schechter_finite:
  assumes "0 \<le> z" and "0 < z0"
  shows "np_mul (np_power z 2) (np_exp (np_neg (np_power (z / z0) (3 / 2))))
         = Fin (z powr 2 * exp (- ((z / z0) powr (3 / 2))))"
  using assms by (cases "z = 0") (simp_all add: np_power_def)

lemma schechter_le_one:
  fixes z z0 :: real
  assumes "0 \<le> z" and "0 < z0" and "z0 \<le> 1"
  shows "z powr 2 * exp (- ((z / z0) powr (3 / 2))) \<le> 1"
proof (cases "z \<le> 1")
  case True
  have "z powr 2 \<le> 1"
    using assms(1) True powr_mono2 [of 2 z 1] by simp
  moreover have "exp (- ((z / z0) powr (3 / 2))) \<le> 1"
    by simp
  moreover have "0 \<le> z powr 2" by simp
  ultimately show ?thesis
    by (metis exp_ge_zero mult_le_one)
next
  case False
  then have z1: "1 < z" by simp
  have "z \<le> z / z0"
    using assms z1 by (simp add: le_divide_eq)
  then have "z powr (3 / 2) \<le> (z / z0) powr (3 / 2)"
    using z1 by (intro powr_mono2) simp_all
  moreover have "z powr 1 \<le> z powr (3 / 2)"
    using z1 by (intro powr_mono) simp_all
  ultimately have "z \<le> (z / z0) powr (3 / 2)"
    using z1 by simp
  then have "exp (- ((z / z0) powr (3 / 2))) \<le> exp (- z)"
    by simp
  then have "z powr 2 * exp (- ((z / z0) powr (3 / 2))) \<le> z powr 2 * exp (- z)"
    by (intro mult_left_mono) simp_all
  also have "\<dots> = z\<^sup>2 * exp (- z)"
    using z1 by simp
  also have "\<dots> \<le> exp z * exp (- z)"
    using z1 by (intro mult_right_mono square_le_exp) simp_all
  also have "exp z * exp (- z) = 1"
    by (simp flip: exp_add)
  finally show ?thesis .
qed

lemma n_of_z_ELG_finite:
  "0 \<le> z \<Longrightarrow> n_of_z ELG z = Fin (z powr 2 * exp (- ((z / ELG_z0) powr (3 / 2))))"
  using schechter_finite [of z ELG_z0] by (simp add: ELG_alpha_def ELG_beta_def ELG_z0_def)

lemma n_of_z_BGS_finite:
  "0 \<le> z \<Longrightarrow> n_of_z BGS z = Fin (z powr 2 * exp (- ((z / BGS_z0) powr (3 / 2))))"
  using schechter_finite [of z BGS_z0] by (simp add: BGS_alpha_def BGS_beta_def BGS_z0_def)

text \<open>
  \<^bold>\<open>C4.\<close> The specification's LRG density divides by \<open>sqrt 2 * sigma\<close>. The code
  divides by \<open>sqrt 2\<close> and then multiplies by \<open>sigma\<close>, so its arguments of \<open>erf\<close>
  are a hundred times smaller. At \<open>z = 0.7\<close>, the middle of the top hat, the code's
  value is strictly below the specified one.
\<close>

theorem LRG_n_of_z_below_spec_formula: "np_less (n_of_z LRG (7 / 10)) (Fin (LRG_n_of_z_spec (7 / 10)))"
proof -
  have s2: "0 < sqrt 2" by simp
  have "3 / 10 / sqrt 2 * (1 / 10) < 3 / 10 / (sqrt 2 * (1 / 10))"
    using s2 by (simp add: field_simps)
  then have a: "erf (3 / 10 / sqrt 2 * (1 / 10)) < erf (3 / 10 / (sqrt 2 * (1 / 10)))"
    by (rule erf_strict_mono)
  have "- (3 / 10) / (sqrt 2 * (1 / 10)) < - (3 / 10) / sqrt 2 * (1 / 10)"
    using s2 by (simp add: field_simps)
  then have b: "erf (- (3 / 10) / (sqrt 2 * (1 / 10))) < erf (- (3 / 10) / sqrt 2 * (1 / 10))"
    by (rule erf_strict_mono)
  have "n_of_z LRG (7 / 10) = Fin (0.5 * (erf (3 / 10 / sqrt 2 * (1 / 10)) - erf (- (3 / 10) / sqrt 2 * (1 / 10))))"
    by (simp add: LRG_z_min_def LRG_z_max_def LRG_sigma_def)
  moreover have "LRG_n_of_z_spec (7 / 10) = 0.5 * (erf (3 / 10 / (sqrt 2 * (1 / 10))) - erf (- (3 / 10) / (sqrt 2 * (1 / 10))))"
    by (simp add: LRG_n_of_z_spec_def LRG_z_min_def LRG_z_max_def LRG_sigma_def)
  ultimately show ?thesis using a b by simp
qed

text \<open>
  \<^bold>\<open>C7.\<close> For ELG and BGS the declared \<open>max_prob_estimate\<close> (which is \<open>1.0\<close>) is
  an upper bound of \<open>n_of_z\<close> at every \<open>z\<close> of the sampling domain \<open>[0, 5]\<close>.
\<close>

theorem max_prob_estimate_bounds_n_of_z:
  assumes "self = ELG \<or> self = BGS" and "0 \<le> z" and "z \<le> 5"
  shows "\<exists>m. max_prob_estimate self = Some m \<and> np_le (n_of_z self z) (Fin m)"
proof -
  have "z powr 2 * exp (- ((z / ELG_z0) powr (3 / 2))) \<le> 1"
    using assms(2) by (intro schechter_le_one) (simp_all add: ELG_z0_def)
  moreover have "z powr 2 * exp (- ((z / BGS_z0) powr (3 / 2))) \<le> 1"
    using assms(2) by (intro schechter_le_one) (simp_all add: BGS_z0_def)
  ultimately show ?thesis
    using assms(1) n_of_z_ELG_finite [OF assms(2)] n_of_z_BGS_finite [OF assms(2)]
    by (auto simp del: n_of_z.simps)
qed

theorem max_prob_estimate_bounds_n_of_z_witness:
  "(ELG = ELG \<or> ELG = BGS) \<and> (0::real) \<le> 1 \<and> (1::real) \<le> 5 \<and>
   (\<exists>m. max_prob_estimate ELG = Some m \<and> np_le (n_of_z ELG 1) (Fin m)) \<and>
   (BGS = ELG \<or> BGS = BGS) \<and> (0::real) \<le> 1 / 5 \<and> (1 / 5::real) \<le> 5 \<and>
   (\<exists>m. max_prob_estimate BGS = Some m \<and> np_le (n_of_z BGS (1 / 5)) (Fin m))"
  using max_prob_estimate_bounds_n_of_z [of ELG 1]
    max_prob_estimate_bounds_n_of_z [of BGS "1 / 5"]
  by (simp del: n_of_z.simps)

text \<open>
  \<^bold>\<open>C8.\<close> Every variant's density is non-negative on the sampling domain \<open>[0, 5]\<close>.
\<close>

theorem n_of_z_nonneg:
  assumes "0 \<le> z" and "z \<le> 5"
  shows "np_le (Fin 0) (n_of_z self z)"
proof (cases self)
  case LRG
  have "(z - LRG_z_max) / sqrt 2 * LRG_sigma \<le> (z - LRG_z_min) / sqrt 2 * LRG_sigma"
    by (simp add: LRG_z_max_def LRG_z_min_def LRG_sigma_def divide_right_mono)
  then have "erf ((z - LRG_z_max) / sqrt 2 * LRG_sigma) \<le> erf ((z - LRG_z_min) / sqrt 2 * LRG_sigma)"
    by (rule erf_mono)
  with LRG show ?thesis by auto
next
  case ELG
  with assms(1) n_of_z_ELG_finite [OF assms(1)] show ?thesis
    by (auto simp del: n_of_z.simps simp add: zero_less_mult_iff)
next
  case QSO
  then show ?thesis by (auto simp add: zero_less_mult_iff)
next
  case BGS
  with assms(1) n_of_z_BGS_finite [OF assms(1)] show ?thesis
    by (auto simp del: n_of_z.simps simp add: zero_less_mult_iff)
qed

theorem n_of_z_nonneg_witness:
  "(0::real) \<le> 7 / 10 \<and> (7 / 10::real) \<le> 5 \<and>
   np_le (Fin 0) (n_of_z LRG (7 / 10)) \<and> np_le (Fin 0) (n_of_z ELG (7 / 10)) \<and>
   np_le (Fin 0) (n_of_z QSO (7 / 10)) \<and> np_le (Fin 0) (n_of_z BGS (7 / 10))"
  using n_of_z_nonneg [of "7 / 10" LRG] n_of_z_nonneg [of "7 / 10" ELG]
    n_of_z_nonneg [of "7 / 10" QSO] n_of_z_nonneg [of "7 / 10" BGS]
  by (simp del: n_of_z.simps)

subsection \<open>The random generator\<close>

lemma uniform_range:
  assumes "valid_rng g" and "low \<le> high" and "x \<in> set (fst (uniform low high k g))"
  shows "low \<le> x \<and> x \<le> high"
proof -
  from assms(3) obtain i where x: "x = low + (high - low) * g i"
    by (auto simp add: uniform_def)
  from assms(1) have u: "0 \<le> g i" "g i \<le> 1"
    by (simp_all add: valid_rng_def less_imp_le)
  from assms(2) have d: "0 \<le> high - low" by simp
  have "0 \<le> (high - low) * g i"
    using d u(1) by (rule mult_nonneg_nonneg)
  moreover have "(high - low) * g i \<le> (high - low) * 1"
    using u(2) d by (rule mult_left_mono)
  ultimately show ?thesis using x by simp
qed

lemma uniform_valid:
  "valid_rng g \<Longrightarrow> valid_rng (snd (uniform low high k g))"
  by (simp add: uniform_def valid_rng_def advance_def)

lemma mask_select_subset: "set (mask_select xs flags) \<subseteq> set xs"
  by (auto simp add: mask_select_def dest: set_zip_leftD)

lemma valid_rng_draws:
  "list_all (\<lambda>u. 0 \<le> u \<and> u < 1) us \<Longrightarrow> valid_rng (draws us)"
  by (simp add: valid_rng_def draws_def list_all_length)

lemma advance_draws: "advance k (draws us) = draws (drop k us)"
  by (rule ext) (auto simp add: advance_def draws_def add.commute)

lemma uniform_draws:
  assumes "k \<le> length us"
  shows "uniform low high k (draws us)
         = (map (\<lambda>u. low + (high - low) * u) (take k us), draws (drop k us))"
proof -
  have "map (\<lambda>i. low + (high - low) * draws us i) [0..<k]
        = map (\<lambda>u. low + (high - low) * u) (take k us)"
    using assms by (auto simp add: list_eq_iff_nth_eq draws_def)
  then show ?thesis
    by (simp add: uniform_def advance_draws)
qed

lemma randint_draws:
  "low < high \<Longrightarrow>
   randint low high (draws (u # us)) = Inr (low + \<lfloor>u * of_int (high - low)\<rfloor>, draws us)"
  by (simp add: randint_def advance_draws) (simp add: draws_def)

subsection \<open>Rejection sampling\<close>

text \<open>
  What the loop returns, if it returns: at least \<open>n\<close> samples, all of them in the
  sampling domain when the draws are in the unit interval.
\<close>

lemma sample_loop_length:
  assumes run: "sample_loop self max_prob n samples g = Some r"
  shows "n \<le> int (length (fst r))"
proof (rule sample_loop.raw_induct
    [where P = "\<lambda>self max_prob n samples g r. n \<le> int (length (fst r))", OF _ run], goal_cases)
  case (1 loop self max_prob n samples g r)
  show ?case
  proof (cases "int (length samples) < n")
    case False
    with 1(2) show ?thesis by auto
  next
    case True
    with 1(2) obtain samples' g' where "loop self max_prob n samples' g' = Some r"
      by (simp add: Let_def case_prod_beta)
    then show ?thesis by (rule 1(1))
  qed
qed

lemma sample_redshifts_length:
  assumes "sample_redshifts self n g = Some (Inr (zs, g'))" and "0 \<le> n"
  shows "int (length zs) = n"
proof -
  from assms(1) obtain max_prob samples where
    loop: "sample_loop self max_prob n [] g = Some (samples, g')" and zs: "zs = slice_to samples n"
    by (auto simp add: sample_redshifts_def split: option.splits)
  from sample_loop_length [OF loop] assms(2) zs show ?thesis
    by (simp add: slice_to_def)
qed

lemma sample_loop_in_domain:
  assumes run: "sample_loop self max_prob n samples g = Some r"
    and g: "valid_rng g" and dom: "in_domain samples"
  shows "in_domain (fst r)"
proof -
  have "valid_rng g \<longrightarrow> in_domain samples \<longrightarrow> in_domain (fst r)"
  proof (rule sample_loop.raw_induct
      [where P = "\<lambda>self max_prob n samples g r.
          valid_rng g \<longrightarrow> in_domain samples \<longrightarrow> in_domain (fst r)", OF _ run],
      goal_cases)
    case (1 loop self max_prob n samples g r)
    show ?case
    proof (intro impI)
      assume g: "valid_rng g" and dom: "in_domain samples"
      show "in_domain (fst r)"
      proof (cases "int (length samples) < n")
        case False
        with dom 1(2) show ?thesis by auto
      next
        case True
        define k where "k = nat ((n - int (length samples)) * 3)"
        define zs where "zs = fst (uniform 0 5 k g)"
        define g1 where "g1 = snd (uniform 0 5 k g)"
        define ps where "ps = fst (uniform 0 max_prob k g1)"
        define g2 where "g2 = snd (uniform 0 max_prob k g1)"
        define acc where
          "acc = mask_select zs (map2 (\<lambda>p z. np_less (Fin p) (n_of_z self z)) ps zs)"
        from True 1(2) have call: "loop self max_prob n (samples @ acc) g2 = Some r"
          by (simp add: Let_def case_prod_beta k_def zs_def g1_def ps_def g2_def acc_def)
        have "valid_rng g2"
          using g by (simp add: g2_def g1_def uniform_valid)
        moreover have "in_domain zs"
          using uniform_range [OF g, of 0 5 _ k] by (auto simp add: in_domain_def zs_def)
        then have "in_domain (samples @ acc)"
          using dom mask_select_subset [of zs] by (auto simp add: in_domain_def acc_def)
        ultimately show ?thesis
          using 1(1) [OF call] by simp
      qed
    qed
  qed
  with g dom show ?thesis by simp
qed

text \<open>A run that accepts at once: three proposals \<open>z = 1\<close> with heights \<open>0\<close>.\<close>

lemma ELG_accepts_1: "np_less (Fin 0) (n_of_z ELG 1)"
  by (simp add: np_power_def ELG_alpha_def ELG_beta_def ELG_z0_def)

lemma BGS_accepts_1: "np_less (Fin 0) (n_of_z BGS 1)"
  by (simp add: np_power_def BGS_alpha_def BGS_beta_def BGS_z0_def)

lemma sample_one:
  assumes "max_prob_estimate self = Some 1" and "np_less (Fin 0) (n_of_z self 1)"
  shows "sample_redshifts self 1 (draws (1/5 # 1/5 # 1/5 # 0 # 0 # 0 # us))
         = Some (Inr ([1], draws us))"
proof -
  let ?g = "draws (1/5 # 1/5 # 1/5 # 0 # 0 # 0 # us)"
  have u1: "uniform 0 5 3 ?g = ([1, 1, 1], draws (0 # 0 # 0 # us))"
    by (simp add: uniform_draws)
  have u2: "uniform 0 1 3 (draws (0 # 0 # 0 # us)) = ([0, 0, 0], draws us)"
    by (simp add: uniform_draws)
  have "sample_loop self 1 1 [] ?g = sample_loop self 1 1 [1, 1, 1] (draws us)"
    by (subst sample_loop.simps) (simp add: u1 u2 assms(2) mask_select_def)
  also have "\<dots> = Some ([1, 1, 1], draws us)"
    by (subst sample_loop.simps) simp
  finally show ?thesis
    by (simp add: sample_redshifts_def assms(1) slice_to_def)
qed

text \<open>
  \<^bold>\<open>C3.\<close> \<^verbatim>\<open>sample_redshifts\<close> reads \<^verbatim>\<open>self.max_prob_estimate\<close> before its loop.
  \<^verbatim>\<open>LRG.__init__\<close> and \<^verbatim>\<open>QSO.__init__\<close> do not set it, unlike those of ELG and BGS, so
  on these two variants every call raises \<^verbatim>\<open>AttributeError\<close>, whatever the count.
\<close>

theorem sample_redshifts_LRG_QSO_raise:
  "sample_redshifts LRG n g = Some (Inl (AttributeError ''max_prob_estimate'')) \<and>
   sample_redshifts QSO n g = Some (Inl (AttributeError ''max_prob_estimate''))"
  by (simp add: sample_redshifts_def)

text \<open>On ELG and BGS no call raises: it returns or it runs forever.\<close>

lemma sample_redshifts_ELG_BGS_never_raise:
  "sample_redshifts ELG n g \<noteq> Some (Inl e) \<and> sample_redshifts BGS n g \<noteq> Some (Inl e)"
  by (simp add: sample_redshifts_def split: option.splits)

text \<open>
  \<^bold>\<open>C6.\<close> On a variant that defines \<open>max_prob_estimate\<close>, with a non-negative
  count \<open>n\<close> and draws from the unit interval, a call of \<^verbatim>\<open>sample_redshifts\<close> that
  terminates returns exactly \<open>n\<close> values, each in \<open>[0, 5]\<close>.
\<close>

theorem sample_redshifts_count_and_domain:
  assumes "max_prob_estimate self = Some max_prob" and "0 \<le> n" and "valid_rng g"
    and "sample_redshifts self n g = Some r"
  shows "\<exists>zs g'. r = Inr (zs, g') \<and> int (length zs) = n \<and> (\<forall>z\<in>set zs. 0 \<le> z \<and> z \<le> 5)"
proof -
  from assms(1,4) obtain samples g' where
    loop: "sample_loop self max_prob n [] g = Some (samples, g')"
    and r: "r = Inr (slice_to samples n, g')"
    by (auto simp add: sample_redshifts_def split: option.splits)
  have "n \<le> int (length samples)"
    using sample_loop_length [OF loop] by simp
  moreover have "in_domain samples"
    using sample_loop_in_domain [OF loop assms(3)] by (simp add: in_domain_def)
  ultimately show ?thesis
    using assms(2) r by (auto simp add: slice_to_def in_domain_def dest: in_set_takeD)
qed

theorem sample_redshifts_count_and_domain_witness:
  "max_prob_estimate ELG = Some 1 \<and> (0::int) \<le> 1 \<and>
   valid_rng (draws [1/5, 1/5, 1/5, 0, 0, 0]) \<and>
   sample_redshifts ELG 1 (draws [1/5, 1/5, 1/5, 0, 0, 0]) = Some (Inr ([1], draws [])) \<and>
   (\<exists>zs g'. (Inr ([1], draws []) :: error + real list \<times> rng) = Inr (zs, g') \<and>
      int (length zs) = 1 \<and> (\<forall>z\<in>set zs. 0 \<le> z \<and> z \<le> 5))"
proof -
  have m: "max_prob_estimate ELG = Some 1" by simp
  have v: "valid_rng (draws [1/5, 1/5, 1/5, 0, 0, 0])"
    by (rule valid_rng_draws) simp
  have run: "sample_redshifts ELG 1 (draws [1/5, 1/5, 1/5, 0, 0, 0]) = Some (Inr ([1], draws []))"
    by (rule sample_one [OF _ ELG_accepts_1]) simp
  from sample_redshifts_count_and_domain [OF m _ v run] m v run show ?thesis
    by simp
qed

text \<open>
  \<^bold>\<open>C10.\<close> On ELG and BGS a count \<open>n \<le> 0\<close> gives the empty sequence without an
  error and without a draw: the loop body never runs, and \<^verbatim>\<open>[][:n]\<close> is empty.
\<close>

theorem sample_redshifts_nonpositive_count_empty:
  "n \<le> 0 \<Longrightarrow> self = ELG \<or> self = BGS \<Longrightarrow> sample_redshifts self n g = Some (Inr ([], g))"
  by (auto simp add: sample_redshifts_def sample_loop.simps slice_to_def)

theorem sample_redshifts_nonpositive_count_empty_witness:
  "(- 3::int) \<le> 0 \<and> (ELG = ELG \<or> ELG = BGS) \<and>
   sample_redshifts ELG (- 3) (draws []) = Some (Inr ([], draws [])) \<and>
   (0::int) \<le> 0 \<and> (BGS = ELG \<or> BGS = BGS) \<and>
   sample_redshifts BGS 0 (draws []) = Some (Inr ([], draws []))"
  using sample_redshifts_nonpositive_count_empty [of "- 3" ELG "draws []"]
    sample_redshifts_nonpositive_count_empty [of 0 BGS "draws []"]
  by simp

subsection \<open>The survey mixer\<close>

text \<open>
  The four sub-counts sum to \<open>n\<close>, and a sub-count that is not positive is skipped,
  not subtracted. So a call that returns has drawn at least \<open>n\<close> redshifts, and more
  than \<open>n\<close> as soon as a sub-count is negative.
\<close>

lemma extend_sampled_length:
  assumes "extend_sampled self k (redshifts, g) = Some (Inr (zs, g'))"
  shows "int (length zs) = int (length redshifts) + max 0 k"
    and "max_prob_estimate self = None \<Longrightarrow> k \<le> 0"
proof -
  show "int (length zs) = int (length redshifts) + max 0 k"
  proof (cases "0 < k")
    case False
    with assms show ?thesis by (simp add: extend_sampled_def)
  next
    case True
    with assms obtain ys where ys: "sample_redshifts self k g = Some (Inr (ys, g'))" and "zs = redshifts @ ys"
      by (auto simp add: extend_sampled_def split: option.splits sum.splits)
    with sample_redshifts_length [OF ys] True show ?thesis by simp
  qed
  show "k \<le> 0" if "max_prob_estimate self = None"
    using assms that by (auto simp add: extend_sampled_def sample_redshifts_def split: if_splits)
qed

lemma generate_redshifts_at_least:
  assumes "generate_redshifts n g = Some (Inr (zs, g'))"
  shows "n \<le> int (length zs)"
proof -
  from assms obtain edge_1 edge_2 edge_3 g3 r1 g4 r2 g5 r3 g6 where
    lrg: "extend_sampled LRG edge_1 ([], g3) = Some (Inr (r1, g4))" and
    elg: "extend_sampled ELG (edge_2 - edge_1) (r1, g4) = Some (Inr (r2, g5))" and
    qso: "extend_sampled QSO (edge_3 - edge_2) (r2, g5) = Some (Inr (r3, g6))" and
    bgs: "extend_sampled BGS (n - edge_3) (r3, g6) = Some (Inr (zs, g'))"
    by (auto simp add: generate_redshifts_def and_then_def Let_def split: option.splits sum.splits)
  have "edge_1 \<le> 0" using extend_sampled_length(2) [OF lrg] by simp
  moreover have "edge_3 - edge_2 \<le> 0" using extend_sampled_length(2) [OF qso] by simp
  ultimately show ?thesis
    using extend_sampled_length(1) [OF lrg] extend_sampled_length(1) [OF elg]
      extend_sampled_length(1) [OF qso] extend_sampled_length(1) [OF bgs]
    by simp
qed

lemma unsorted_edges_rng_valid: "valid_rng unsorted_edges_rng"
  unfolding unsorted_edges_rng_def by (rule valid_rng_draws) simp

text \<open>
  \<^bold>\<open>C2.\<close> \<^verbatim>\<open>generate_redshifts(1)\<close> on the run \<open>unsorted_edges_rng\<close>: the edges are
  \<open>0\<close>, \<open>1\<close>, \<open>0\<close>, hence \<open>n_lrg = 0\<close>, \<open>n_elg = 1\<close>, \<open>n_qso = - 1\<close>, \<open>n_bgs = 1\<close>.
  LRG and QSO are skipped, ELG and BGS give one redshift each: two redshifts are
  returned where one was asked for.
\<close>

theorem generate_redshifts_returns_more_than_requested:
  "valid_rng unsorted_edges_rng \<and>
   generate_redshifts 1 unsorted_edges_rng = Some (Inr ([1, 1], draws []))"
proof -
  have elg: "sample_redshifts ELG 1 (draws (1/5 # 1/5 # 1/5 # 0 # 0 # 0 # us)) = Some (Inr ([1], draws us))" for us
    by (rule sample_one [OF _ ELG_accepts_1]) simp
  have bgs: "sample_redshifts BGS 1 (draws (1/5 # 1/5 # 1/5 # 0 # 0 # 0 # us)) = Some (Inr ([1], draws us))" for us
    by (rule sample_one [OF _ BGS_accepts_1]) simp
  have "generate_redshifts 1 unsorted_edges_rng = Some (Inr ([1, 1], draws []))"
    by (simp add: generate_redshifts_def unsorted_edges_rng_def and_then_def extend_sampled_def
        randint_draws elg bgs)
  with unsorted_edges_rng_valid show ?thesis by simp
qed

subsection \<open>The distance model\<close>

text \<open>
  \<^bold>\<open>C1.\<close> \<^verbatim>\<open>Cosmology()\<close> raises \<^verbatim>\<open>AttributeError\<close>: \<^verbatim>\<open>__init__\<close> calls
  \<^verbatim>\<open>self._build_lookups()\<close>, and the method the class defines is \<^verbatim>\<open>_builds_lookups\<close>.
  No instance is returned and no table is built, whatever \<^verbatim>\<open>quad\<close> and \<^verbatim>\<open>interp1d\<close> do.
\<close>

theorem Cosmology_init_raises:
  "Cosmology_init quad interp1d = Inl (AttributeError ''_build_lookups'')"
  by (simp add: Cosmology_init_def Cosmology_class_def)

text \<open>
  The method itself does what its name says: it samples 1000 redshifts from \<open>0\<close> to
  \<open>5\<close> and stores an interpolant.
\<close>

lemma linspace_0_5_1000:
  "length (linspace 0 5 1000) = 1000"
  "linspace 0 5 1000 ! 0 = 0"
  "linspace 0 5 1000 ! 999 = 5"
  by (simp_all add: linspace_def)

lemma builds_lookups_sets_lookup:
  "\<exists>lookup. comoving_distance_lookup (builds_lookups quad interp1d self) = Some lookup"
  by (simp add: builds_lookups_def Let_def)

lemma linear_lookup_instance_lookup:
  "comoving_distance_lookup linear_lookup_instance = Some (\<lambda>z. Fin (3000 * z))"
  by (simp add: linear_lookup_instance_def)

text \<open>
  \<^bold>\<open>C9.\<close> Wherever \<^verbatim>\<open>comoving_distance(z)\<close> returns a value \<open>d_C\<close>,
  \<^verbatim>\<open>luminosity_distance(z)\<close> returns the float product \<open>(1 + z) * d_C\<close>.
\<close>

theorem luminosity_distance_identity:
  "comoving_distance self z = Inr d_C \<Longrightarrow>
   luminosity_distance self z = Inr (np_mul (Fin (1 + z)) d_C)"
  by (simp add: luminosity_distance_def)

theorem luminosity_distance_identity_witness:
  "comoving_distance linear_lookup_instance 1 = Inr (Fin 3000) \<and>
   luminosity_distance linear_lookup_instance 1 = Inr (np_mul (Fin (1 + 1)) (Fin 3000))"
proof -
  have d: "comoving_distance linear_lookup_instance 1 = Inr (Fin 3000)"
    by (simp add: comoving_distance_def linear_lookup_instance_lookup)
  from luminosity_distance_identity [OF d] d show ?thesis by simp
qed

lemma luminosity_distance_linear:
  "luminosity_distance linear_lookup_instance z = Inr (Fin ((1 + z) * (3000 * z)))"
  by (simp add: luminosity_distance_def comoving_distance_def linear_lookup_instance_lookup)

text \<open>
  \<^bold>\<open>C5\<close>, as stated, fails: at \<open>z = - 0.5\<close> on \<open>linear_lookup_instance\<close> the
  luminosity distance is \<open>- 750 \<le> 0\<close>, and \<^verbatim>\<open>distance_modulus\<close> raises nothing: it
  returns \<open>nan\<close>.
\<close>

theorem distance_modulus_nonpositive_counterexample:
  "luminosity_distance linear_lookup_instance (- 1 / 2) = Inr (Fin (- 750)) \<and>
   np_le (Fin (- 750)) (Fin 0) \<and>
   distance_modulus linear_lookup_instance (- 1 / 2) = Inr NaN"
  by (simp add: distance_modulus_def luminosity_distance_linear)

text \<open>
  \<^bold>\<open>C5\<close>, amended. Let \<open>d_L\<close> be the value of \<^verbatim>\<open>luminosity_distance(z)\<close>. When
  \<open>d_L\<close> is positive and finite, \<^verbatim>\<open>distance_modulus(z)\<close> returns
  \<open>5 * log10 (d_L * 1e6) - 5\<close>. When \<open>d_L \<le> 0\<close> it raises no error: it returns \<open>-inf\<close>
  for \<open>d_L = 0\<close> and \<open>nan\<close> for \<open>d_L < 0\<close>, as \<^verbatim>\<open>np.log10\<close> does.
\<close>

theorem distance_modulus_values:
  assumes "luminosity_distance self z = Inr d_L"
  shows "(\<forall>x. d_L = Fin x \<and> 0 < x \<longrightarrow>
            distance_modulus self z = Inr (Fin (5 * log 10 (x * 1000000) - 5))) \<and>
         (d_L = Fin 0 \<longrightarrow> distance_modulus self z = Inr NInf) \<and>
         (np_less d_L (Fin 0) \<longrightarrow> distance_modulus self z = Inr NaN)"
  using assms by (cases d_L) (auto simp add: distance_modulus_def np_inf_of_sign_def)

theorem distance_modulus_values_witness:
  "luminosity_distance linear_lookup_instance 1 = Inr (Fin 6000) \<and> (0::real) < 6000 \<and>
   distance_modulus linear_lookup_instance 1 = Inr (Fin (5 * log 10 (6000 * 1000000) - 5)) \<and>
   luminosity_distance linear_lookup_instance (- 1) = Inr (Fin 0) \<and>
   distance_modulus linear_lookup_instance (- 1) = Inr NInf \<and>
   luminosity_distance linear_lookup_instance (- 1 / 2) = Inr (Fin (- 750)) \<and>
   np_less (Fin (- 750)) (Fin 0) \<and>
   distance_modulus linear_lookup_instance (- 1 / 2) = Inr NaN"
proof -
  have pos: "luminosity_distance linear_lookup_instance 1 = Inr (Fin 6000)"
    and zero: "luminosity_distance linear_lookup_instance (- 1) = Inr (Fin 0)"
    and neg: "luminosity_distance linear_lookup_instance (- 1 / 2) = Inr (Fin (- 750))"
    by (simp_all add: luminosity_distance_linear)
  from distance_modulus_values [OF pos] distance_modulus_values [OF zero]
    distance_modulus_values [OF neg] pos zero neg
  show ?thesis by simp
qed

end
